theory Spec2Isabelle
  imports Main
begin

section \<open>JavaScript values\<close>

text \<open>
  The client of \<^verbatim>\<open>src/e-trade-api.ts\<close> handles untyped JSON: request bodies, response
  bodies and the objects returned by the OAuth and query-string libraries. A JavaScript
  object is an association list in insertion order. Numbers are integers here (ids,
  counts, HTTP statuses and API error codes); fractions and NaN are outside the model.
\<close>

datatype jsval =
    JUndefined
  | JNull
  | JBool bool
  | JNum int
  | JStr string
  | JArr "jsval list"
  | JObj "(string \<times> jsval) list"

type_synonym jsobj = "(string \<times> jsval) list"

text \<open>\<^verbatim>\<open>o[k]\<close> on an object: the value stored under the key, \<^verbatim>\<open>undefined\<close> when absent.\<close>

fun obj_get :: "jsobj \<Rightarrow> string \<Rightarrow> jsval" where
  "obj_get [] k = JUndefined"
| "obj_get ((k', v) # kvs) k = (if k' = k then v else obj_get kvs k)"

text \<open>\<^verbatim>\<open>o[k] = v\<close>: an existing key keeps its place, a new key goes last.\<close>

fun obj_set :: "string \<Rightarrow> jsval \<Rightarrow> jsobj \<Rightarrow> jsobj" where
  "obj_set k v [] = [(k, v)]"
| "obj_set k v ((k', v') # kvs) =
     (if k' = k then (k, v) # kvs else (k', v') # obj_set k v kvs)"

text \<open>\<^verbatim>\<open>Object.keys(o)\<close>.\<close>

definition obj_keys :: "jsobj \<Rightarrow> string list" where
  "obj_keys kvs = remdups (map fst kvs)"

text \<open>Truthiness, as tested by \<^verbatim>\<open>if(x)\<close>, \<^verbatim>\<open>!x\<close> and \<^verbatim>\<open>x || y\<close>.\<close>

fun js_truthy :: "jsval \<Rightarrow> bool" where
  "js_truthy JUndefined = False"
| "js_truthy JNull = False"
| "js_truthy (JBool b) = b"
| "js_truthy (JNum n) = (n \<noteq> 0)"
| "js_truthy (JStr s) = (s \<noteq> [])"
| "js_truthy (JArr xs) = True"
| "js_truthy (JObj kvs) = True"

fun js_nullish :: "jsval \<Rightarrow> bool" where
  "js_nullish JUndefined = True"
| "js_nullish JNull = True"
| "js_nullish v = False"

text \<open>
  Reading a named property of a value that is neither \<^verbatim>\<open>null\<close> nor \<^verbatim>\<open>undefined\<close>.
  Only own properties of objects are modelled: the property names read by the client
  (\<^verbatim>\<open>Error\<close>, \<^verbatim>\<open>code\<close>, \<^verbatim>\<open>message\<close> and the response envelope names) are not inherited
  by any string, number, boolean or array.
\<close>

fun js_prop :: "jsval \<Rightarrow> string \<Rightarrow> jsval" where
  "js_prop (JObj kvs) k = obj_get kvs k"
| "js_prop v k = JUndefined"

text \<open>\<^verbatim>\<open>v.k\<close>: a TypeError (\<open>None\<close>) when \<open>v\<close> is \<^verbatim>\<open>null\<close> or \<^verbatim>\<open>undefined\<close>.\<close>

definition js_get :: "jsval \<Rightarrow> string \<Rightarrow> jsval option" where
  "js_get v k = (if js_nullish v then None else Some (js_prop v k))"

text \<open>\<^verbatim>\<open>v?.k\<close>: \<^verbatim>\<open>undefined\<close> when \<open>v\<close> is \<^verbatim>\<open>null\<close> or \<^verbatim>\<open>undefined\<close>.\<close>

definition js_get_opt :: "jsval \<Rightarrow> string \<Rightarrow> jsval" where
  "js_get_opt v k = (if js_nullish v then JUndefined else js_prop v k)"

text \<open>\<^verbatim>\<open>v[0]\<close>, with the same TypeError on \<^verbatim>\<open>null\<close> and \<^verbatim>\<open>undefined\<close>.\<close>

fun js_first :: "jsval \<Rightarrow> jsval option" where
  "js_first JUndefined = None"
| "js_first JNull = None"
| "js_first (JArr xs) = Some (case xs of [] \<Rightarrow> JUndefined | x # _ \<Rightarrow> x)"
| "js_first (JStr s) = Some (case s of [] \<Rightarrow> JUndefined | c # _ \<Rightarrow> JStr [c])"
| "js_first (JObj kvs) = Some (obj_get kvs ''0'')"
| "js_first v = Some JUndefined"

subsection \<open>Conversion to strings\<close>

definition show_digit :: "nat \<Rightarrow> char" where
  "show_digit d = char_of (48 + d)"

function show_nat :: "nat \<Rightarrow> string" where
  "show_nat n = (if n < 10 then [show_digit n] else show_nat (n div 10) @ [show_digit (n mod 10)])"
  by pat_completeness auto
termination
  by (relation "measure (\<lambda>n. n)") auto

declare show_nat.simps [simp del]

definition show_int :: "int \<Rightarrow> string" where
  "show_int i = (if i < 0 then CHR ''-'' # show_nat (nat (- i)) else show_nat (nat i))"

text \<open>\<^verbatim>\<open>xs.join(sep)\<close> on strings.\<close>

fun join :: "string \<Rightarrow> string list \<Rightarrow> string" where
  "join sep [] = []"
| "join sep [x] = x"
| "join sep (x # y # ys) = x @ sep @ join sep (y # ys)"

text \<open>
  The string a value becomes in a template literal or under \<^verbatim>\<open>'' + v\<close>. An array joins
  its elements with commas, \<^verbatim>\<open>null\<close> and \<^verbatim>\<open>undefined\<close> elements giving the empty string.
  Integers print in decimal, which is what JavaScript prints below \<open>10\<^sup>2\<^sup>1\<close>; from there on
  JavaScript prints an exponent, and above \<open>2\<^sup>5\<^sup>3\<close> not every integer is a JavaScript number.
  The ids printed into paths are far below both.
\<close>

fun js_string :: "jsval \<Rightarrow> string" where
  "js_string JUndefined = ''undefined''"
| "js_string JNull = ''null''"
| "js_string (JBool b) = (if b then ''true'' else ''false'')"
| "js_string (JNum n) = show_int n"
| "js_string (JStr s) = s"
| "js_string (JArr xs) =
     join '','' (map (\<lambda>x. if js_nullish x then [] else js_string x) xs)"
| "js_string (JObj kvs) = ''[object Object]''"

section \<open>Client settings\<close>

datatype mode = Dev | Prod

record urls =
  oauth_url :: string
  prod_url :: string
  dev_url :: string

record proxy_auth =
  username :: string
  password :: string

text \<open>The \<^verbatim>\<open>proxy\<close> option: \<^verbatim>\<open>false\<close>, or a host, a port and optional credentials.\<close>

datatype proxy_setting =
    NoProxy
  | Proxy string int "proxy_auth option"

record ETradeOptions =
  mode :: mode
  key :: string
  secret :: string
  accessToken :: string
  accessSecret :: string
  urls :: urls
  connectionLimit :: int
  connectionLimitPeriod :: int
  errorOnConnectionLimit :: bool
  proxy :: proxy_setting

text \<open>
  \<^verbatim>\<open>Partial<ETradeOptions>\<close>: every key may be absent (\<open>None\<close>), and so may each of the
  three URLs. A key that is present holds a value of its declared type; a key present
  with the value \<^verbatim>\<open>undefined\<close> is outside the model.
\<close>

record partial_urls =
  opt_oauth_url :: "string option"
  opt_prod_url :: "string option"
  opt_dev_url :: "string option"

record partial_options =
  opt_mode :: "mode option"
  opt_key :: "string option"
  opt_secret :: "string option"
  opt_accessToken :: "string option"
  opt_accessSecret :: "string option"
  opt_urls :: "partial_urls option"
  opt_connectionLimit :: "int option"
  opt_connectionLimitPeriod :: "int option"
  opt_errorOnConnectionLimit :: "bool option"
  opt_proxy :: "proxy_setting option"

definition no_options :: partial_options where
  "no_options = \<lparr> opt_mode = None, opt_key = None, opt_secret = None,
     opt_accessToken = None, opt_accessSecret = None, opt_urls = None,
     opt_connectionLimit = None, opt_connectionLimitPeriod = None,
     opt_errorOnConnectionLimit = None, opt_proxy = None \<rparr>"

text \<open>\<^verbatim>\<open>ETrade.defaults\<close>.\<close>

definition defaults :: ETradeOptions where
  "defaults = \<lparr> mode = Dev, key = [], secret = [], accessToken = [], accessSecret = [],
     urls = \<lparr> oauth_url = ''https://api.etrade.com/oauth/'',
              prod_url = ''https://api.etrade.com/v1/'',
              dev_url = ''https://apisb.etrade.com/v1/'' \<rparr>,
     connectionLimit = 10, connectionLimitPeriod = 1000,
     errorOnConnectionLimit = False, proxy = NoProxy \<rparr>"

text \<open>
  \<^verbatim>\<open>merge(target, source)\<close> of the deepmerge package, on the two shapes the constructor
  gives it: a key of the source replaces the target's value, except that a nested object
  (\<^verbatim>\<open>urls\<close>) is merged key by key; a key absent from the source keeps the target's value.
\<close>

definition override :: "'a \<Rightarrow> 'a option \<Rightarrow> 'a" where
  "override d x = (case x of None \<Rightarrow> d | Some v \<Rightarrow> v)"

definition merge_urls :: "urls \<Rightarrow> partial_urls \<Rightarrow> urls" where
  "merge_urls t s = \<lparr> oauth_url = override (oauth_url t) (opt_oauth_url s),
     prod_url = override (prod_url t) (opt_prod_url s),
     dev_url = override (dev_url t) (opt_dev_url s) \<rparr>"

definition merge_options :: "ETradeOptions \<Rightarrow> partial_options \<Rightarrow> ETradeOptions" where
  "merge_options t s = \<lparr> mode = override (mode t) (opt_mode s),
     key = override (key t) (opt_key s),
     secret = override (secret t) (opt_secret s),
     accessToken = override (accessToken t) (opt_accessToken s),
     accessSecret = override (accessSecret t) (opt_accessSecret s),
     urls = (case opt_urls s of None \<Rightarrow> urls t | Some u \<Rightarrow> merge_urls (urls t) u),
     connectionLimit = override (connectionLimit t) (opt_connectionLimit s),
     connectionLimitPeriod = override (connectionLimitPeriod t) (opt_connectionLimitPeriod s),
     errorOnConnectionLimit = override (errorOnConnectionLimit t) (opt_errorOnConnectionLimit s),
     proxy = override (proxy t) (opt_proxy s) \<rparr>"

section \<open>Requests\<close>

text \<open>
  \<^verbatim>\<open>AxiosRequestConfig\<close>, with the keys the client reads or writes. Every key may be
  absent (\<open>None\<close>).
\<close>

record request =
  rq_method :: "string option"
  baseURL :: "string option"
  url :: "string option"
  headers :: "(string \<times> string) list option"
  rq_proxy :: "proxy_setting option"
  data :: "jsval option"
  params :: "jsobj option"

definition empty_request :: request where
  "empty_request = \<lparr> rq_method = None, baseURL = None, url = None, headers = None,
     rq_proxy = None, data = None, params = None \<rparr>"

text \<open>A token pair \<^verbatim>\<open>{ key, secret }\<close>.\<close>

record token =
  token_key :: string
  token_secret :: string

text \<open>The \<^verbatim>\<open>token\<close> argument of \<^verbatim>\<open>signRequest\<close>: left out, a boolean, or a token pair.\<close>

datatype token_arg = TokUndefined | TokBool bool | TokPair token

section \<open>The client and what it imports\<close>

text \<open>
  The packages the module imports are not part of the repository; the model takes them
  as given. \<open>OAuth\<close> stands for the oauth-1.0a package: from the consumer key and secret
  it gives the \<^verbatim>\<open>authorize\<close> function of the OAuth object (at the nonce and the time of
  the call), which returns the authorization object for a request and an optional token
  pair. \<open>parseQueryString\<close> is \<^verbatim>\<open>querystring.parse\<close>. \<open>VERSION\<close> is the version in
  \<^verbatim>\<open>package.json\<close> and \<open>process_version\<close> the Node version.
\<close>

type_synonym authorize = "request \<Rightarrow> token option \<Rightarrow> jsobj"

record env =
  VERSION :: string
  process_version :: string
  OAuth :: "string \<Rightarrow> string \<Rightarrow> authorize"
  parseQueryString :: "jsval \<Rightarrow> jsobj"

text \<open>The arguments of \<^verbatim>\<open>new Throttle(...)\<close>.\<close>

record throttle =
  limit :: int
  period :: int
  errorOnLimit :: bool

record client =
  settings :: ETradeOptions
  call_id :: nat
  throttle :: throttle
  oauth :: authorize

text \<open>The constructor; \<open>None\<close> is a call without the \<^verbatim>\<open>options\<close> argument.\<close>

definition constructor :: "env \<Rightarrow> partial_options option \<Rightarrow> client" where
  "constructor e options =
     (let s = merge_options defaults (case options of None \<Rightarrow> no_options | Some opts \<Rightarrow> opts)
      in \<lparr> settings = s,
           call_id = 0,
           throttle = \<lparr> limit = connectionLimit s, period = connectionLimitPeriod s,
                        errorOnLimit = errorOnConnectionLimit s \<rparr>,
           oauth = OAuth e (key s) (secret s) \<rparr>)"

subsection \<open>getBasicRequest\<close>

text \<open>
  The deep merge of two header objects and of two proxy settings: the keys of the source
  win; a source proxy object merges into a target proxy object key by key, so that the
  target's credentials stay when the source has none.
\<close>

fun set_header :: "string \<Rightarrow> string \<Rightarrow> (string \<times> string) list \<Rightarrow> (string \<times> string) list" where
  "set_header k v [] = [(k, v)]"
| "set_header k v ((k', v') # kvs) =
     (if k' = k then (k, v) # kvs else (k', v') # set_header k v kvs)"

fun merge_headers :: "(string \<times> string) list \<Rightarrow> (string \<times> string) list \<Rightarrow> (string \<times> string) list" where
  "merge_headers t [] = t"
| "merge_headers t ((k, v) # kvs) = merge_headers (set_header k v t) kvs"

fun merge_proxy :: "proxy_setting \<Rightarrow> proxy_setting \<Rightarrow> proxy_setting" where
  "merge_proxy t NoProxy = NoProxy"
| "merge_proxy NoProxy (Proxy h p a) = Proxy h p a"
| "merge_proxy (Proxy h' p' a') (Proxy h p a) =
     Proxy h p (case a of None \<Rightarrow> a' | Some x \<Rightarrow> Some x)"

text \<open>
  \<^verbatim>\<open>getBasicRequest(requestOptions)\<close>: the client's base request (GET, the base URL of
  the mode, the User-Agent header, the proxy setting) with the keys of
  \<^verbatim>\<open>requestOptions\<close> merged over it. A call without argument passes \<open>empty_request\<close>.
\<close>

definition user_agent :: "env \<Rightarrow> string" where
  "user_agent e = ''node-e-trade/v'' @ VERSION e @ '' nodejs/'' @ process_version e"

definition getBasicRequest :: "env \<Rightarrow> client \<Rightarrow> request \<Rightarrow> request" where
  "getBasicRequest e c requestOptions =
     \<lparr> rq_method = Some (override ''GET'' (rq_method requestOptions)),
       baseURL = Some (override
                   (if mode (settings c) = Prod then prod_url (urls (settings c))
                    else dev_url (urls (settings c)))
                   (baseURL requestOptions)),
       url = url requestOptions,
       headers = Some (merge_headers [(''User-Agent'', user_agent e)]
                   (override [] (headers requestOptions))),
       rq_proxy = Some (case rq_proxy requestOptions of
                     None \<Rightarrow> proxy (settings c)
                   | Some p \<Rightarrow> merge_proxy (proxy (settings c)) p),
       data = data requestOptions,
       params = params requestOptions \<rparr>"

subsection \<open>signRequest\<close>

text \<open>\<^verbatim>\<open>key.startsWith(p)\<close>.\<close>

fun startsWith :: "string \<Rightarrow> string \<Rightarrow> bool" where
  "startsWith [] s = True"
| "startsWith (p # ps) [] = False"
| "startsWith (p # ps) (c # cs) = (p = c \<and> startsWith ps cs)"

text \<open>
  The object \<^verbatim>\<open>options\<close> that \<^verbatim>\<open>signRequest\<close> hands to the OAuth library: a deep copy of
  the request (\<^verbatim>\<open>merge({}, request)\<close>) whose \<^verbatim>\<open>url\<close> is the base URL followed by the path,
  without \<^verbatim>\<open>baseURL\<close> and, in omit mode, without \<^verbatim>\<open>data\<close>. The copy shares nothing with
  the request, so these deletions act on the copy alone.
\<close>

definition sign_options :: "request \<Rightarrow> bool \<Rightarrow> request" where
  "sign_options rq omit =
     (let options = rq;
          options = options\<lparr> url := Some (override [] (baseURL options) @ override [] (url options)) \<rparr>;
          options = options\<lparr> baseURL := None \<rparr>
      in if omit then options\<lparr> data := None \<rparr> else options)"

text \<open>
  The token handed to the OAuth library: the client's access token when the argument is
  left out or \<^verbatim>\<open>true\<close>, none when it is \<^verbatim>\<open>false\<close>, the given pair otherwise.
\<close>

fun sign_token :: "client \<Rightarrow> token_arg \<Rightarrow> token option" where
  "sign_token c TokUndefined =
     Some \<lparr> token_key = accessToken (settings c), token_secret = accessSecret (settings c) \<rparr>"
| "sign_token c (TokBool True) =
     Some \<lparr> token_key = accessToken (settings c), token_secret = accessSecret (settings c) \<rparr>"
| "sign_token c (TokBool False) = None"
| "sign_token c (TokPair t) = Some t"

text \<open>Copying the selected keys of the authorization object into the parameters.\<close>

fun copy_keys :: "jsobj \<Rightarrow> string list \<Rightarrow> jsobj \<Rightarrow> jsobj" where
  "copy_keys authorization [] ps = ps"
| "copy_keys authorization (k # ks) ps =
     copy_keys authorization ks (obj_set k (obj_get authorization k) ps)"

text \<open>
  \<^verbatim>\<open>signRequest(request, token, omit)\<close> mutates the request it is given; the model
  returns the request after the call.
\<close>

definition signRequest :: "client \<Rightarrow> request \<Rightarrow> token_arg \<Rightarrow> bool \<Rightarrow> request" where
  "signRequest c rq tok omit =
     (let authorization = oauth c (sign_options rq omit) (sign_token c tok);
          rq = (case params rq of None \<Rightarrow> rq\<lparr> params := Some [] \<rparr> | Some ps \<Rightarrow> rq)
      in rq\<lparr> params := Some (copy_keys authorization
                 (filter (\<lambda>k. \<not> omit \<or> startsWith ''oauth'' k) (obj_keys authorization))
                 (override [] (params rq))) \<rparr>)"

section \<open>The dispatcher\<close>

text \<open>
  What the transport gives back: \<^verbatim>\<open>axios.request\<close> resolves with a response, or rejects
  with an error object that carries the HTTP response when there was one. The rest of
  the error object (\<open>detail\<close>) is opaque.
\<close>

record http_response =
  status :: int
  statusText :: string
  resp_data :: jsval

record 'e axios_error =
  response :: "http_response option"
  detail :: 'e

datatype 'e axios_result = Resolved http_response | Rejected "'e axios_error"

text \<open>The error object built by the dispatcher (\<^verbatim>\<open>ETradeError\<close>).\<close>

record ETradeError =
  message :: jsval
  code :: jsval
  raw :: jsval

text \<open>What a call can throw: the dispatcher's error, the transport's error, a TypeError.\<close>

datatype 'e thrown =
    ThrowETradeError ETradeError
  | ThrowAxiosError "'e axios_error"
  | ThrowTypeError

text \<open>The \<^verbatim>\<open>if(err.response)\<close> branch of the \<^verbatim>\<open>catch\<close> block of \<^verbatim>\<open>request\<close>.\<close>

definition normalize :: "http_response \<Rightarrow> 'e thrown" where
  "normalize r =
     (let nErr = \<lparr> message = JStr (statusText r), code = JNum (status r), raw = JUndefined \<rparr>
      in case js_get (resp_data r) ''Error'' of
           None \<Rightarrow> ThrowTypeError
         | Some err \<Rightarrow>
             (let nErr =
                (if js_truthy err
                 then (let nErr = (if js_truthy (js_prop err ''code'')
                                   then nErr\<lparr> code := js_prop err ''code'' \<rparr> else nErr)
                       in nErr\<lparr> message := js_prop err ''message'' \<rparr>)
                 else nErr)
              in ThrowETradeError (nErr\<lparr> raw := resp_data r \<rparr>)))"

text \<open>
  \<^verbatim>\<open>request(options)\<close>, for a call that the throttle admits: the unit of work handed to
  \<^verbatim>\<open>throttle.acquire\<close>. The call counter goes up by one, \<open>axios\<close> is the transport, and
  the result is the response body or what is thrown. The two debug calls have no effect
  on the result. A call that the throttle refuses (\<^verbatim>\<open>errorOnConnectionLimit\<close>) never runs
  this unit of work and is not described here.
\<close>

definition request :: "client \<Rightarrow> (request \<Rightarrow> 'e axios_result) \<Rightarrow> request \<Rightarrow> client \<times> ('e thrown + jsval)" where
  "request c axios options =
     (let c = c\<lparr> call_id := call_id c + 1 \<rparr>
      in case axios options of
           Resolved r \<Rightarrow> (c, Inr (resp_data r))
         | Rejected err \<Rightarrow>
             (c, Inl (case response err of
                        None \<Rightarrow> ThrowAxiosError err
                      | Some r \<Rightarrow> normalize r)))"

section \<open>The trading and market endpoints\<close>

text \<open>
  Each endpoint method builds a request with \<^verbatim>\<open>getBasicRequest\<close>, signs it, dispatches it
  and unwraps the response. A call is the method with its arguments, in the order of
  the method's parameter list; an optional argument is \<open>None\<close> when the caller leaves it out.
  Orders, preview ids and client order ids are passed on as they are, hence \<open>jsval\<close>.
\<close>

datatype symbols_arg = Symbol string | Symbols "string list"

datatype alert_arg = AlertId int | AlertIds "int list"

datatype api_call =
    CancelOrder string int
  | ChangePreviewedOrder string int string jsval jsval
  | DeleteAlert alert_arg
  | GetAccountBalances string "string option" "string option" "bool option"
  | GetOptionChains string "int option" "int option" "int option" "int option" "int option"
      "bool option" "bool option" "string option" "string option" "string option"
  | GetOptionExpireDates string "string option"
  | GetQuotes symbols_arg "string option" "bool option" "bool option" "bool option"
  | ListAccounts
  | ListAlertDetails int "bool option"
  | ListAlerts "int option" "string option" "string option" "string option" "string option"
  | ListOrders string "string option" "int option" "string option" "string option"
      "string option" "string option" "string option" "string option" "string option"
  | ListOrderDetails string int
  | ListTransactionDetails string int "string option"
  | ListTransactions string "string option" "string option" "string option" "string option"
      "int option"
  | LookupProduct string
  | PlaceChangedOrder string int string jsval jsval jsval
  | PlaceOrder string string jsval jsval jsval
  | PreviewOrder string string jsval jsval
  | ViewLotsDetails string int
  | ViewPortfolio string "int option" "string option" "string option" "string option"
      "bool option" "bool option" "string option"

text \<open>\<^verbatim>\<open>if(x){ data.k = x; }\<close> for an optional string or number.\<close>

definition set_str :: "string \<Rightarrow> string option \<Rightarrow> jsobj \<Rightarrow> jsobj" where
  "set_str k x d = (case x of None \<Rightarrow> d | Some s \<Rightarrow> if js_truthy (JStr s) then obj_set k (JStr s) d else d)"

definition set_num :: "string \<Rightarrow> int option \<Rightarrow> jsobj \<Rightarrow> jsobj" where
  "set_num k x d = (case x of None \<Rightarrow> d | Some n \<Rightarrow> if js_truthy (JNum n) then obj_set k (JNum n) d else d)"

text \<open>\<^verbatim>\<open>if(x !== undefined){ data.k = x; }\<close>.\<close>

definition set_defined :: "string \<Rightarrow> int option \<Rightarrow> jsobj \<Rightarrow> jsobj" where
  "set_defined k x d = (case x of None \<Rightarrow> d | Some n \<Rightarrow> obj_set k (JNum n) d)"

text \<open>The \<^verbatim>\<open>requestOptions\<close> each method passes to \<^verbatim>\<open>getBasicRequest\<close>.\<close>

fun call_options :: "api_call \<Rightarrow> request" where
  "call_options (CancelOrder accountIdKey orderId) =
     empty_request\<lparr> rq_method := Some ''PUT'',
       url := Some (''accounts/'' @ accountIdKey @ ''/orders/cancel.json''),
       data := Some (JObj [(''CancelOrderRequest'', JObj [(''orderId'', JNum orderId)])]) \<rparr>"
| "call_options (ChangePreviewedOrder accountIdKey orderId orderType clientOrderId order) =
     empty_request\<lparr> rq_method := Some ''PUT'',
       url := Some (''accounts/'' @ accountIdKey @ ''/orders/'' @ show_int orderId @ ''/change/preview.json''),
       data := Some (JObj [(''PreviewOrderRequest'', JObj [(''orderType'', JStr orderType),
                 (''clientOrderId'', clientOrderId), (''Order'', order)])]) \<rparr>"
| "call_options (DeleteAlert alertId) =
     empty_request\<lparr> rq_method := Some ''DELETE'',
       url := Some (''user/alerts/''
                @ (case alertId of AlertId n \<Rightarrow> show_int n | AlertIds ns \<Rightarrow> join '','' (map show_int ns))
                @ ''.json'') \<rparr>"
| "call_options (GetAccountBalances accountIdKey accountType instType realTimeNAV) =
     empty_request\<lparr> url := Some (''accounts/'' @ accountIdKey @ ''/balance.json''),
       data := Some (JObj (set_str ''accountType'' accountType
                 [(''instType'', JStr (override ''BROKERAGE'' instType)),
                  (''realTimeNAV'', JBool (override True realTimeNAV))])) \<rparr>"
| "call_options (GetOptionChains symbol expiryYear expiryMonth expiryDay strikePriceNear noOfStrikes
       includeWeekly skipAdjusted optionCategory chainType priceType) =
     empty_request\<lparr> url := Some ''market/optionchains.json'',
       data := Some (JObj (set_defined ''noOfStrikes'' noOfStrikes
                 (set_defined ''strikePriceNear'' strikePriceNear
                 (set_num ''expiryDay'' expiryDay
                 (set_num ''expiryMonth'' expiryMonth
                 (set_num ''expiryYear'' expiryYear
                 [(''symbol'', JStr symbol),
                  (''includeWeekly'', JBool (override False includeWeekly)),
                  (''skipAdjusted'', JBool (override True skipAdjusted)),
                  (''optionCategory'', JStr (override ''STANDARD'' optionCategory)),
                  (''chainType'', JStr (override ''CALLPUT'' chainType)),
                  (''priceType'', JStr (override ''ATNM'' priceType))])))))) \<rparr>"
| "call_options (GetOptionExpireDates symbol expiryType) =
     empty_request\<lparr> url := Some ''market/optionexpiredate.json'',
       data := Some (JObj (set_str ''expiryType'' expiryType [(''symbol'', JStr symbol)])) \<rparr>"
| "call_options (GetQuotes symbols detailFlag requireEarningsDate overrideSymbolCount skipMiniOptionsCheck) =
     empty_request\<lparr> url := Some (''market/quote/''
                @ (case symbols of Symbol s \<Rightarrow> s | Symbols ss \<Rightarrow> join '','' ss)
                @ ''.json''),
       data := Some (JObj (set_str ''detailFlag'' detailFlag
                 [(''requireEarningsDate'', JBool (override False requireEarningsDate)),
                  (''overrideSymbolCount'', JBool (override False overrideSymbolCount)),
                  (''skipMiniOptionsCheck'', JBool (override False skipMiniOptionsCheck))])) \<rparr>"
| "call_options ListAccounts =
     empty_request\<lparr> url := Some ''accounts/list.json'' \<rparr>"
| "call_options (ListAlertDetails alertId htmlTags) =
     empty_request\<lparr> url := Some (''user/alerts/'' @ show_int alertId @ ''.json''),
       data := Some (JObj [(''htmlTags'', JBool (override False htmlTags))]) \<rparr>"
| "call_options (ListAlerts count category status' direction search) =
     empty_request\<lparr> url := Some ''user/alerts.json'',
       data := Some (JObj (set_str ''search'' search
                 (set_str ''direction'' direction
                 (set_str ''status'' status'
                 (set_str ''category'' category
                 (set_num ''count'' count [])))))) \<rparr>"
| "call_options (ListOrders accountIdKey marker count status' fromDate toDate symbol securityType
       transactionType marketSession) =
     empty_request\<lparr> url := Some (''accounts/'' @ accountIdKey @ ''/orders.json''),
       data := Some (JObj (set_str ''marketSession'' marketSession
                 (set_str ''transactionType'' transactionType
                 (set_str ''securityType'' securityType
                 (set_str ''symbol'' symbol
                 (set_str ''toDate'' toDate
                 (set_str ''fromDate'' fromDate
                 (set_str ''status'' status'
                 (set_num ''count'' count
                 (set_str ''marker'' marker [])))))))))) \<rparr>"
| "call_options (ListOrderDetails accountIdKey orderId) =
     empty_request\<lparr> url := Some (''accounts/'' @ accountIdKey @ ''/orders/'' @ show_int orderId @ ''.json'') \<rparr>"
| "call_options (ListTransactionDetails accountIdKey transactionId storeId) =
     empty_request\<lparr> url := Some (''accounts/'' @ accountIdKey @ ''/transactions/''
                @ show_int transactionId @ ''.json''),
       data := Some (JObj (set_str ''storeId'' storeId [])) \<rparr>"
| "call_options (ListTransactions accountIdKey startDate endDate sortOrder marker count) =
     empty_request\<lparr> url := Some (''accounts/'' @ accountIdKey @ ''/transactions.json''),
       data := Some (JObj (set_num ''count'' count
                 (set_str ''marker'' marker
                 (set_str ''sortOrder'' sortOrder
                 (set_str ''endDate'' endDate
                 (set_str ''startDate'' startDate [])))))) \<rparr>"
| "call_options (LookupProduct search) =
     empty_request\<lparr> url := Some (''market/lookup/'' @ search @ ''.json'') \<rparr>"
| "call_options (PlaceChangedOrder accountIdKey orderId orderType order clientOrderId previewIds) =
     empty_request\<lparr> rq_method := Some ''PUT'',
       url := Some (''accounts/'' @ accountIdKey @ ''/orders/'' @ show_int orderId @ ''/change/place.json''),
       data := Some (JObj [(''PlaceOrderRequest'', JObj [(''orderType'', JStr orderType),
                 (''clientOrderId'', clientOrderId), (''Order'', order),
                 (''PreviewIds'', previewIds)])]) \<rparr>"
| "call_options (PlaceOrder accountIdKey orderType order clientOrderId previewIds) =
     empty_request\<lparr> rq_method := Some ''POST'',
       url := Some (''accounts/'' @ accountIdKey @ ''/orders/place.json''),
       data := Some (JObj [(''PlaceOrderRequest'', JObj [(''orderType'', JStr orderType),
                 (''clientOrderId'', clientOrderId), (''Order'', order),
                 (''PreviewIds'', previewIds)])]) \<rparr>"
| "call_options (PreviewOrder accountIdKey orderType order clientOrderId) =
     empty_request\<lparr> rq_method := Some ''POST'',
       url := Some (''accounts/'' @ accountIdKey @ ''/orders/preview.json''),
       data := Some (JObj [(''PreviewOrderRequest'', JObj [(''orderType'', JStr orderType),
                 (''clientOrderId'', clientOrderId), (''Order'', order)])]) \<rparr>"
| "call_options (ViewLotsDetails accountIdKey positionId) =
     empty_request\<lparr> url := Some (''accounts/'' @ accountIdKey @ ''/portfolio/''
                @ show_int positionId @ ''.json'') \<rparr>"
| "call_options (ViewPortfolio accountIdKey count sortBy sortOrder marketSession totalsRequired
       lotsRequired view) =
     empty_request\<lparr> url := Some (''accounts/'' @ accountIdKey @ ''/portfolio.json''),
       data := Some (JObj (set_str ''sortBy'' sortBy
                 (set_num ''count'' count
                 [(''sortOrder'', JStr (override ''DESC'' sortOrder)),
                  (''marketSession'', JStr (override ''REGULAR'' marketSession)),
                  (''totalsRequired'', JBool (override False totalsRequired)),
                  (''lotsRequired'', JBool (override False lotsRequired)),
                  (''view'', JStr (override ''QUICK'' view))]))) \<rparr>"

text \<open>The methods that sign in omit mode (\<^verbatim>\<open>signRequest(requestOptions, undefined, true)\<close>).\<close>

fun call_omit :: "api_call \<Rightarrow> bool" where
  "call_omit (CancelOrder a b) = True"
| "call_omit (ChangePreviewedOrder a b c d e) = True"
| "call_omit (PlaceChangedOrder a b c d e f) = True"
| "call_omit (PlaceOrder a b c d e) = True"
| "call_omit (PreviewOrder a b c d) = True"
| "call_omit call = False"

text \<open>
  The unwrap step of each method, applied to the response body; \<open>None\<close> is the TypeError
  of reading a property of \<^verbatim>\<open>null\<close> or \<^verbatim>\<open>undefined\<close>.
\<close>

definition get2 :: "jsval \<Rightarrow> string \<Rightarrow> string \<Rightarrow> jsval option" where
  "get2 v k1 k2 = Option.bind (js_get v k1) (\<lambda>x. js_get x k2)"

fun call_unwrap :: "api_call \<Rightarrow> jsval \<Rightarrow> jsval option" where
  "call_unwrap (CancelOrder a b) v = js_get v ''CancelOrderResponse''"
| "call_unwrap (ChangePreviewedOrder a b c d e) v = js_get v ''PreviewOrderResponse''"
| "call_unwrap (DeleteAlert a) v = js_get v ''AlertsResponse''"
| "call_unwrap (GetAccountBalances a b c d) v = js_get v ''BalanceResponse''"
| "call_unwrap (GetOptionChains a b c d e f g h i j k) v = js_get v ''OptionChainResponse''"
| "call_unwrap (GetOptionExpireDates a b) v = get2 v ''OptionExpireDateResponse'' ''ExpirationDate''"
| "call_unwrap (GetQuotes a b c d e) v =
     Option.bind (get2 v ''QuoteResponse'' ''QuoteData'') js_first"
| "call_unwrap ListAccounts v =
     Option.bind (get2 v ''AccountListResponse'' ''Accounts'') (\<lambda>x. js_get x ''Account'')"
| "call_unwrap (ListAlertDetails a b) v = js_get v ''AlertDetailsResponse''"
| "call_unwrap (ListAlerts a b c d e) v = js_get v ''AlertsResponse''"
| "call_unwrap (ListOrders a b c d e f g h i j) v = js_get v ''OrdersResponse''"
| "call_unwrap (ListOrderDetails a b) v =
     Option.bind (get2 v ''OrdersResponse'' ''Order'') js_first"
| "call_unwrap (ListTransactionDetails a b c) v = js_get v ''TransactionDetailsResponse''"
| "call_unwrap (ListTransactions a b c d e f) v = js_get v ''TransactionListResponse''"
| "call_unwrap (LookupProduct a) v = get2 v ''LookupResponse'' ''Data''"
| "call_unwrap (PlaceChangedOrder a b c d e f) v = js_get v ''PlaceOrderResponse''"
| "call_unwrap (PlaceOrder a b c d e) v = js_get v ''PlaceOrderResponse''"
| "call_unwrap (PreviewOrder a b c d) v = js_get v ''PreviewOrderResponse''"
| "call_unwrap (ViewLotsDetails a b) v = js_get v ''PositionLotsResponse''"
| "call_unwrap (ViewPortfolio a b c d e f g h) v =
     (let p = js_get_opt (js_get_opt v ''PortfolioResponse'') ''AccountPortfolio''
      in Some (if js_truthy p then p else JObj []))"

text \<open>The request a method hands to the dispatcher, which passes it to the transport as it is.\<close>

definition signed_request :: "env \<Rightarrow> client \<Rightarrow> api_call \<Rightarrow> request" where
  "signed_request e c call =
     signRequest c (getBasicRequest e c (call_options call)) TokUndefined (call_omit call)"

text \<open>A method call as a whole: the client after the call, and the result or the error.\<close>

definition invoke :: "env \<Rightarrow> client \<Rightarrow> (request \<Rightarrow> 'e axios_result) \<Rightarrow> api_call \<Rightarrow> client \<times> ('e thrown + jsval)" where
  "invoke e c axios call =
     (case request c axios (signed_request e c call) of
        (c', Inl err) \<Rightarrow> (c', Inl err)
      | (c', Inr v) \<Rightarrow>
          (c', case call_unwrap call v of None \<Rightarrow> Inl ThrowTypeError | Some x \<Rightarrow> Inr x))"

section \<open>The OAuth endpoints\<close>

record RequestTokenResponse =
  rt_oauth_token :: string
  rt_oauth_token_secret :: string
  rt_oauth_callback_confirmed :: bool
  rt_url :: string

record GetAccessTokenResponse =
  at_oauth_token :: string
  at_oauth_token_secret :: string

text \<open>
  The request \<^verbatim>\<open>requestToken()\<close> builds before signing, and the signed request it hands
  to the dispatcher.
\<close>

definition requestToken_options :: "env \<Rightarrow> client \<Rightarrow> request" where
  "requestToken_options e c =
     (let requestOptions = getBasicRequest e c empty_request;
          requestOptions = requestOptions\<lparr> baseURL := None \<rparr>;
          requestOptions = requestOptions\<lparr> url := Some (oauth_url (urls (settings c)) @ ''request_token'') \<rparr>
      in requestOptions\<lparr> data := Some (JObj [(''oauth_callback'', JStr ''oob'')]) \<rparr>)"

definition requestToken_request :: "env \<Rightarrow> client \<Rightarrow> request" where
  "requestToken_request e c = signRequest c (requestToken_options e c) (TokBool False) False"

definition requestToken :: "env \<Rightarrow> client \<Rightarrow> (request \<Rightarrow> 'e axios_result) \<Rightarrow> client \<times> ('e thrown + RequestTokenResponse)" where
  "requestToken e c axios =
     (case request c axios (requestToken_request e c) of
        (c', Inl err) \<Rightarrow> (c', Inl err)
      | (c', Inr v) \<Rightarrow>
          (let results = parseQueryString e v
           in (c', Inr \<lparr> rt_oauth_token = [] @ js_string (obj_get results ''oauth_token''),
                  rt_oauth_token_secret = [] @ js_string (obj_get results ''oauth_token_secret''),
                  rt_oauth_callback_confirmed = (obj_get results ''oauth_callback_confirmed'' = JStr ''true''),
                  rt_url = ''https://us.etrade.com/e/t/etws/authorize?key='' @ key (settings c)
                           @ ''&token='' @ js_string (obj_get results ''oauth_token'') \<rparr>)))"

text \<open>\<^verbatim>\<open>getAccessToken({ key, secret, code })\<close>.\<close>

definition getAccessToken_options :: "env \<Rightarrow> client \<Rightarrow> string \<Rightarrow> request" where
  "getAccessToken_options e c code' =
     (let requestOptions = getBasicRequest e c empty_request;
          requestOptions = requestOptions\<lparr> baseURL := None \<rparr>;
          requestOptions = requestOptions\<lparr> url := Some (oauth_url (urls (settings c)) @ ''access_token'') \<rparr>
      in requestOptions\<lparr> data := Some (JObj [(''oauth_verifier'', JStr code')]) \<rparr>)"

definition getAccessToken_request :: "env \<Rightarrow> client \<Rightarrow> string \<Rightarrow> string \<Rightarrow> string \<Rightarrow> request" where
  "getAccessToken_request e c key' secret' code' =
     signRequest c (getAccessToken_options e c code')
       (TokPair \<lparr> token_key = key', token_secret = secret' \<rparr>) False"

definition getAccessToken :: "env \<Rightarrow> client \<Rightarrow> (request \<Rightarrow> 'e axios_result) \<Rightarrow> string \<Rightarrow> string \<Rightarrow> string \<Rightarrow> client \<times> ('e thrown + GetAccessTokenResponse)" where
  "getAccessToken e c axios key' secret' code' =
     (case request c axios (getAccessToken_request e c key' secret' code') of
        (c', Inl err) \<Rightarrow> (c', Inl err)
      | (c', Inr v) \<Rightarrow>
          (let results = parseQueryString e v
           in (c', Inr \<lparr> at_oauth_token = [] @ js_string (obj_get results ''oauth_token''),
                  at_oauth_token_secret = [] @ js_string (obj_get results ''oauth_token_secret'') \<rparr>)))"

section \<open>Sessions\<close>

text \<open>
  A session: the calls a caller makes one after the other on the same client, each of
  them admitted by the throttle.
\<close>

fun session :: "env \<Rightarrow> client \<Rightarrow> (request \<Rightarrow> 'e axios_result) \<Rightarrow> api_call list \<Rightarrow> client" where
  "session e c axios [] = c"
| "session e c axios (call # calls) = session e (fst (invoke e c axios call)) axios calls"

section \<open>An environment for concrete inputs\<close>

text \<open>
  The theorems below hold for every environment. To evaluate them at concrete inputs,
  this environment has an OAuth object that returns the \<^verbatim>\<open>oauth_*\<close> entries with a fixed
  nonce and timestamp, then the entries of the data it was given, then a signature that
  records the method, the URL and the data it was given; and a query-string parser that
  knows two response bodies.
\<close>

definition sample_OAuth :: "string \<Rightarrow> string \<Rightarrow> authorize" where
  "sample_OAuth consumer_key consumer_secret options tok =
     [(''oauth_consumer_key'', JStr consumer_key), (''oauth_nonce'', JStr ''nonce''),
      (''oauth_signature_method'', JStr ''HMAC-SHA1''), (''oauth_timestamp'', JNum 1),
      (''oauth_version'', JStr ''1.0'')]
     @ (case tok of None \<Rightarrow> [] | Some t \<Rightarrow> [(''oauth_token'', JStr (token_key t))])
     @ (case data options of Some (JObj kvs) \<Rightarrow> kvs | _ \<Rightarrow> [])
     @ [(''oauth_signature'', JArr [JStr (override [] (rq_method options)),
           JStr (override [] (url options)), override JUndefined (data options)])]"

definition sample_parse :: "jsval \<Rightarrow> jsobj" where
  "sample_parse v =
     (if v = JStr ''oauth_token=abc&oauth_token_secret=def&oauth_callback_confirmed=true''
      then [(''oauth_token'', JStr ''abc''), (''oauth_token_secret'', JStr ''def''),
            (''oauth_callback_confirmed'', JStr ''true'')]
      else if v = JStr ''oauth_token_secret=def''
      then [(''oauth_token_secret'', JStr ''def'')]
      else [])"

definition sample_env :: env where
  "sample_env = \<lparr> VERSION = ''2.0.0'', process_version = ''v18.0.0'',
     OAuth = sample_OAuth, parseQueryString = sample_parse \<rparr>"

definition sample_client :: client where
  "sample_client = constructor sample_env
     (Some (no_options\<lparr> opt_key := Some ''ck'', opt_secret := Some ''cs'' \<rparr>))"

text \<open>A transport that answers every request with status 200 and the body \<^verbatim>\<open>{}\<close>.\<close>

definition ok_axios :: "request \<Rightarrow> unit axios_result" where
  "ok_axios rq = Resolved \<lparr> status = 200, statusText = ''OK'', resp_data = JObj [] \<rparr>"

text \<open>A transport that answers every request with status 200 and the given body.\<close>

definition body_axios :: "jsval \<Rightarrow> request \<Rightarrow> unit axios_result" where
  "body_axios v rq = Resolved \<lparr> status = 200, statusText = ''OK'', resp_data = v \<rparr>"

text \<open>A transport that fails with the given HTTP response, and one that gets no response.\<close>

definition failing_axios :: "http_response \<Rightarrow> request \<Rightarrow> unit axios_result" where
  "failing_axios r rq = Rejected \<lparr> response = Some r, detail = () \<rparr>"

definition refused_axios :: "request \<Rightarrow> string axios_result" where
  "refused_axios rq = Rejected \<lparr> response = None, detail = ''ECONNREFUSED'' \<rparr>"

definition invalid_symbol :: http_response where
  "invalid_symbol = \<lparr> status = 400, statusText = ''Bad Request'',
     resp_data = JObj [(''Error'', JObj [(''code'', JNum 1032), (''message'', JStr ''Invalid symbol'')])] \<rparr>"

definition server_error :: http_response where
  "server_error = \<lparr> status = 500, statusText = ''Internal Server Error'', resp_data = JObj [] \<rparr>"

definition zero_code :: http_response where
  "zero_code = \<lparr> status = 400, statusText = ''Bad Request'',
     resp_data = JObj [(''Error'', JObj [(''code'', JNum 0), (''message'', JStr ''Rejected'')])] \<rparr>"

definition null_body :: http_response where
  "null_body = \<lparr> status = 502, statusText = ''Bad Gateway'', resp_data = JNull \<rparr>"

section \<open>The constructor's settings\<close>

lemma override_simps [simp]: "override d None = d" "override d (Some v) = v"
  by (simp_all add: override_def)

text \<open>
  C5. Whatever options the constructor is given, each setting is the caller's value when
  the caller gave one and the default otherwise: mode \<^verbatim>\<open>dev\<close> (sandbox), empty access
  token and secret, connection limit 10 per 1000 ms, no error on the limit, no proxy.
  The merge is deep: of the three URLs, each one the caller gives replaces its default
  and the others keep theirs. The throttle is built from the merged limits.
\<close>

theorem constructor_settings:
  "settings (constructor e None) = defaults
   \<and> mode defaults = Dev \<and> accessToken defaults = [] \<and> accessSecret defaults = []
   \<and> connectionLimit defaults = 10 \<and> connectionLimitPeriod defaults = 1000
   \<and> errorOnConnectionLimit defaults = False \<and> proxy defaults = NoProxy
   \<and> urls defaults = \<lparr> oauth_url = ''https://api.etrade.com/oauth/'',
        prod_url = ''https://api.etrade.com/v1/'', dev_url = ''https://apisb.etrade.com/v1/'' \<rparr>
   \<and> settings (constructor e (Some opts)) = merge_options defaults opts
   \<and> mode (settings (constructor e (Some opts))) = override Dev (opt_mode opts)
   \<and> accessToken (settings (constructor e (Some opts))) = override [] (opt_accessToken opts)
   \<and> accessSecret (settings (constructor e (Some opts))) = override [] (opt_accessSecret opts)
   \<and> connectionLimit (settings (constructor e (Some opts))) = override 10 (opt_connectionLimit opts)
   \<and> connectionLimitPeriod (settings (constructor e (Some opts))) = override 1000 (opt_connectionLimitPeriod opts)
   \<and> errorOnConnectionLimit (settings (constructor e (Some opts))) = override False (opt_errorOnConnectionLimit opts)
   \<and> proxy (settings (constructor e (Some opts))) = override NoProxy (opt_proxy opts)
   \<and> key (settings (constructor e (Some opts))) = override [] (opt_key opts)
   \<and> secret (settings (constructor e (Some opts))) = override [] (opt_secret opts)
   \<and> urls (settings (constructor e (Some opts))) =
       (case opt_urls opts of
          None \<Rightarrow> \<lparr> oauth_url = ''https://api.etrade.com/oauth/'',
                   prod_url = ''https://api.etrade.com/v1/'', dev_url = ''https://apisb.etrade.com/v1/'' \<rparr>
        | Some u \<Rightarrow> \<lparr> oauth_url = override ''https://api.etrade.com/oauth/'' (opt_oauth_url u),
                     prod_url = override ''https://api.etrade.com/v1/'' (opt_prod_url u),
                     dev_url = override ''https://apisb.etrade.com/v1/'' (opt_dev_url u) \<rparr>)
   \<and> throttle (constructor e (Some opts)) =
       \<lparr> limit = override 10 (opt_connectionLimit opts),
         period = override 1000 (opt_connectionLimitPeriod opts),
         errorOnLimit = override False (opt_errorOnConnectionLimit opts) \<rparr>"
  by (simp add: constructor_def merge_options_def defaults_def no_options_def merge_urls_def Let_def
      split: option.split)

theorem constructor_settings_witness:
  "settings (constructor sample_env (Some (no_options\<lparr> opt_mode := Some Prod,
       opt_urls := Some \<lparr> opt_oauth_url = None, opt_prod_url = Some ''https://proxy.test/v1/'', opt_dev_url = None \<rparr>,
       opt_connectionLimit := Some 3 \<rparr>)))
   = \<lparr> mode = Prod, key = [], secret = [], accessToken = [], accessSecret = [],
       urls = \<lparr> oauth_url = ''https://api.etrade.com/oauth/'', prod_url = ''https://proxy.test/v1/'',
                dev_url = ''https://apisb.etrade.com/v1/'' \<rparr>,
       connectionLimit = 3, connectionLimitPeriod = 1000, errorOnConnectionLimit = False,
       proxy = NoProxy \<rparr>"
  using constructor_settings [of sample_env "no_options\<lparr> opt_mode := Some Prod,
       opt_urls := Some \<lparr> opt_oauth_url = None, opt_prod_url = Some ''https://proxy.test/v1/'', opt_dev_url = None \<rparr>,
       opt_connectionLimit := Some 3 \<rparr>"]
  by (simp add: no_options_def merge_options_def defaults_def merge_urls_def)


section \<open>Objects and parameter copying\<close>

lemma obj_get_obj_set: "obj_get (obj_set k v kvs) k' = (if k = k' then v else obj_get kvs k')"
  by (induction kvs) auto

lemma obj_get_absent: "k \<notin> set (map fst kvs) \<Longrightarrow> obj_get kvs k = JUndefined"
  by (induction kvs) auto

lemma map_fst_obj_set:
  "map fst (obj_set k v kvs) = (if k \<in> set (map fst kvs) then map fst kvs else map fst kvs @ [k])"
  by (induction kvs) (force simp: rev_image_eqI)+

lemma keys_obj_set: "set (map fst (obj_set k v kvs)) = insert k (set (map fst kvs))"
  unfolding map_fst_obj_set by auto

lemma obj_get_copy_keys:
  "obj_get (copy_keys a ks ps) k = (if k \<in> set ks then obj_get a k else obj_get ps k)"
  by (induction ks arbitrary: ps) (auto simp: obj_get_obj_set)

lemma keys_copy_keys: "set (map fst (copy_keys a ks ps)) = set ks \<union> set (map fst ps)"
  by (induction ks arbitrary: ps) (simp_all add: keys_obj_set del: set_map)

section \<open>Signing\<close>

lemma signRequest_eq:
  "signRequest c rq tok omit =
     rq\<lparr> params := Some (copy_keys (oauth c (sign_options rq omit) (sign_token c tok))
              (filter (\<lambda>k. \<not> omit \<or> startsWith ''oauth'' k)
                 (obj_keys (oauth c (sign_options rq omit) (sign_token c tok))))
              (override [] (params rq))) \<rparr>"
  by (cases "params rq") (simp_all add: signRequest_def Let_def)

lemmas sample_defs = sample_client_def sample_env_def sample_OAuth_def constructor_def
  merge_options_def defaults_def no_options_def merge_urls_def getBasicRequest_def
  user_agent_def empty_request_def signRequest_eq sign_options_def obj_keys_def
  signed_request_def Let_def

text \<open>
  C8. \<^verbatim>\<open>signRequest\<close> changes the request it is given in \<^verbatim>\<open>params\<close> only: the method, the
  URL, the base URL, the headers and the data are as before. Afterwards \<^verbatim>\<open>params\<close> exists;
  it holds each selected entry of the authorization object (every entry, or in omit mode
  those whose key starts with \<^verbatim>\<open>oauth\<close>) under its key, it keeps what it had under every
  other key, and it has no further keys. The deletion of the data in omit mode happens
  in the copy handed to the OAuth library, which then has no data, while the request
  keeps its own.
\<close>

theorem signRequest_frame:
  "signRequest c rq tok omit = rq\<lparr> params := params (signRequest c rq tok omit) \<rparr>
   \<and> rq_method (signRequest c rq tok omit) = rq_method rq
   \<and> url (signRequest c rq tok omit) = url rq
   \<and> baseURL (signRequest c rq tok omit) = baseURL rq
   \<and> headers (signRequest c rq tok omit) = headers rq
   \<and> data (signRequest c rq tok omit) = data rq
   \<and> (\<exists>ps. params (signRequest c rq tok omit) = Some ps
        \<and> (\<forall>k. k \<notin> set (obj_keys (oauth c (sign_options rq omit) (sign_token c tok))) \<longrightarrow>
               obj_get ps k = obj_get (override [] (params rq)) k)
        \<and> (\<forall>k. k \<in> set (obj_keys (oauth c (sign_options rq omit) (sign_token c tok)))
                \<and> (\<not> omit \<or> startsWith ''oauth'' k) \<longrightarrow>
               obj_get ps k = obj_get (oauth c (sign_options rq omit) (sign_token c tok)) k)
        \<and> (\<forall>k. omit \<and> \<not> startsWith ''oauth'' k \<longrightarrow>
               obj_get ps k = obj_get (override [] (params rq)) k)
        \<and> set (map fst ps) =
             {k \<in> set (obj_keys (oauth c (sign_options rq omit) (sign_token c tok))).
                \<not> omit \<or> startsWith ''oauth'' k}
             \<union> set (map fst (override [] (params rq))))
   \<and> data (sign_options rq True) = None"
proof -
  let ?a = "oauth c (sign_options rq omit) (sign_token c tok)"
  let ?ks = "filter (\<lambda>k. \<not> omit \<or> startsWith ''oauth'' k) (obj_keys ?a)"
  let ?ps = "copy_keys ?a ?ks (override [] (params rq))"
  have p: "params (signRequest c rq tok omit) = Some ?ps"
    by (simp add: signRequest_eq)
  have keys: "set (map fst ?ps) =
      {k \<in> set (obj_keys ?a). \<not> omit \<or> startsWith ''oauth'' k} \<union> set (map fst (override [] (params rq)))"
    unfolding keys_copy_keys by auto
  have frame: "signRequest c rq tok omit = rq\<lparr> params := params (signRequest c rq tok omit) \<rparr>"
    by (simp add: signRequest_eq)
  have fields: "rq_method (signRequest c rq tok omit) = rq_method rq"
    "url (signRequest c rq tok omit) = url rq"
    "baseURL (signRequest c rq tok omit) = baseURL rq"
    "headers (signRequest c rq tok omit) = headers rq"
    "data (signRequest c rq tok omit) = data rq"
    by (simp_all add: signRequest_eq)
  have nodata: "data (sign_options rq True) = None"
    by (simp add: sign_options_def Let_def)
  have ex: "\<exists>ps. params (signRequest c rq tok omit) = Some ps
        \<and> (\<forall>k. k \<notin> set (obj_keys ?a) \<longrightarrow> obj_get ps k = obj_get (override [] (params rq)) k)
        \<and> (\<forall>k. k \<in> set (obj_keys ?a) \<and> (\<not> omit \<or> startsWith ''oauth'' k) \<longrightarrow>
               obj_get ps k = obj_get ?a k)
        \<and> (\<forall>k. omit \<and> \<not> startsWith ''oauth'' k \<longrightarrow>
               obj_get ps k = obj_get (override [] (params rq)) k)
        \<and> set (map fst ps) =
             {k \<in> set (obj_keys ?a). \<not> omit \<or> startsWith ''oauth'' k}
             \<union> set (map fst (override [] (params rq)))"
    using p keys by (simp add: obj_get_copy_keys del: set_map)
  from frame fields ex nodata show ?thesis by blast
qed

theorem signRequest_frame_witness:
  "data (signRequest sample_client
      (getBasicRequest sample_env sample_client (call_options (CancelOrder ''a1'' 529)))
      TokUndefined True)
     = Some (JObj [(''CancelOrderRequest'', JObj [(''orderId'', JNum 529)])])
   \<and> data (sign_options
      (getBasicRequest sample_env sample_client (call_options (CancelOrder ''a1'' 529))) True) = None
   \<and> params (signRequest sample_client
      ((getBasicRequest sample_env sample_client (call_options ListAccounts))\<lparr> params := Some [(''page'', JNum 2)] \<rparr>)
      TokUndefined False)
     = Some [(''page'', JNum 2), (''oauth_consumer_key'', JStr ''ck''), (''oauth_nonce'', JStr ''nonce''),
             (''oauth_signature_method'', JStr ''HMAC-SHA1''), (''oauth_timestamp'', JNum 1),
             (''oauth_version'', JStr ''1.0''), (''oauth_token'', JStr []),
             (''oauth_signature'', JArr [JStr ''GET'',
                JStr ''https://apisb.etrade.com/v1/accounts/list.json'', JUndefined])]"
  using signRequest_frame [of sample_client
      "getBasicRequest sample_env sample_client (call_options (CancelOrder ''a1'' 529))" TokUndefined True]
    signRequest_frame [of sample_client
      "(getBasicRequest sample_env sample_client (call_options ListAccounts))\<lparr> params := Some [(''page'', JNum 2)] \<rparr>"
      TokUndefined False]
  by (simp add: sample_defs)

section \<open>The base URL of the endpoints\<close>

lemma baseURL_call_options: "baseURL (call_options call) = None"
  by (cases call) (simp_all add: empty_request_def)

lemma params_call_options: "params (call_options call) = None"
  by (cases call) (simp_all add: empty_request_def)

lemma data_call_options_omit: "call_omit call \<Longrightarrow> data (call_options call) \<noteq> None"
  by (cases call) (simp_all add: empty_request_def)

lemma settings_request: "settings (fst (request c axios rq)) = settings c"
  by (simp add: request_def Let_def split: axios_result.splits)

lemma settings_invoke: "settings (fst (invoke e c axios call)) = settings c"
proof -
  have "fst (invoke e c axios call) = fst (request c axios (signed_request e c call))"
    by (simp add: invoke_def split: prod.splits sum.splits)
  then show ?thesis by (simp add: settings_request)
qed

lemma settings_session: "settings (session e c axios calls) = settings c"
  by (induction calls arbitrary: c) (simp_all add: settings_invoke)

lemma baseURL_signed_request:
  "baseURL (signed_request e c call) =
     Some (if mode (settings c) = Prod then prod_url (urls (settings c)) else dev_url (urls (settings c)))"
  by (simp add: signed_request_def signRequest_eq getBasicRequest_def baseURL_call_options)

text \<open>
  C6. The request of every trading or market endpoint call has the production base URL
  when the client's mode is \<^verbatim>\<open>prod\<close> and the sandbox base URL otherwise. No call changes the
  settings, so after any session of calls on a client the next request still has the
  base URL of the mode the client was constructed with.
\<close>

theorem endpoint_baseURL:
  "baseURL (signed_request e c call) =
     Some (if mode (settings c) = Prod then prod_url (urls (settings c)) else dev_url (urls (settings c)))
   \<and> settings (fst (invoke e c axios call)) = settings c
   \<and> baseURL (signed_request e (session e (constructor e options) axios calls) call) =
     Some (if mode (settings (constructor e options)) = Prod
           then prod_url (urls (settings (constructor e options)))
           else dev_url (urls (settings (constructor e options))))"
  by (simp add: baseURL_signed_request settings_invoke settings_session)

theorem endpoint_baseURL_witness:
  "baseURL (signed_request sample_env
      (session sample_env (constructor sample_env (Some (no_options\<lparr> opt_mode := Some Prod \<rparr>)))
         ok_axios [ListAccounts, LookupProduct ''TSLA''])
      (CancelOrder ''a1'' 529)) = Some ''https://api.etrade.com/v1/''
   \<and> baseURL (signed_request sample_env
      (session sample_env (constructor sample_env None) ok_axios [ListAccounts])
      ListAccounts) = Some ''https://apisb.etrade.com/v1/''"
  using endpoint_baseURL [of sample_env sample_client "CancelOrder ''a1'' 529" ok_axios
      "Some (no_options\<lparr> opt_mode := Some Prod \<rparr>)" "[ListAccounts, LookupProduct ''TSLA'']"]
    endpoint_baseURL [of sample_env sample_client ListAccounts ok_axios None "[ListAccounts]"]
  by (simp add: constructor_def merge_options_def defaults_def no_options_def merge_urls_def Let_def
        del: session.simps)

section \<open>Omit mode\<close>

text \<open>
  C1, as the code has it. For each of the five methods that sign in omit mode, the
  parameters of the request handed to the transport are exactly the entries of the
  authorization object whose key starts with \<^verbatim>\<open>oauth\<close>, the signature among them. The
  request still carries its data: the body is sent. The object handed to the OAuth
  library has no data, whatever the body is, so the signature does not cover the body.
\<close>

theorem omit_mode_request:
  assumes "call_omit call"
  shows "\<exists>ps body.
      params (signed_request e c call) = Some ps
    \<and> list_all (startsWith ''oauth'') (map fst ps)
    \<and> (\<forall>k. startsWith ''oauth'' k \<longrightarrow>
          obj_get ps k = obj_get (oauth c (sign_options (getBasicRequest e c (call_options call)) True)
                                   (sign_token c TokUndefined)) k)
    \<and> data (call_options call) = Some body
    \<and> data (signed_request e c call) = Some body
    \<and> data (sign_options (getBasicRequest e c (call_options call)) True) = None
    \<and> sign_options ((getBasicRequest e c (call_options call))\<lparr> data := d \<rparr>) True
        = sign_options (getBasicRequest e c (call_options call)) True"
proof -
  let ?rq = "getBasicRequest e c (call_options call)"
  let ?a = "oauth c (sign_options ?rq True) (sign_token c TokUndefined)"
  let ?ks = "filter (startsWith ''oauth'') (obj_keys ?a)"
  let ?ps = "copy_keys ?a ?ks []"
  from assms obtain body where body: "data (call_options call) = Some body"
    using data_call_options_omit by blast
  have p: "params (signed_request e c call) = Some ?ps"
    using assms by (simp add: signed_request_def signRequest_eq getBasicRequest_def params_call_options)
  have keys: "set (map fst ?ps) = set ?ks"
    by (simp add: keys_copy_keys del: set_map)
  have all: "list_all (startsWith ''oauth'') (map fst ?ps)"
    unfolding list_all_iff keys by simp
  have get: "obj_get ?ps k = obj_get ?a k" if "startsWith ''oauth'' k" for k
  proof (cases "k \<in> set (map fst ?a)")
    case True
    with that have "k \<in> set ?ks" by (simp add: obj_keys_def)
    then show ?thesis by (simp add: obj_get_copy_keys)
  next
    case False
    then have "k \<notin> set ?ks" by (simp add: obj_keys_def)
    with False show ?thesis by (simp add: obj_get_copy_keys obj_get_absent)
  qed
  have d: "data (signed_request e c call) = Some body"
    using body by (simp add: signed_request_def signRequest_eq getBasicRequest_def)
  have n: "data (sign_options ?rq True) = None"
    by (simp add: sign_options_def Let_def)
  have i: "sign_options (?rq\<lparr> data := d \<rparr>) True = sign_options ?rq True"
    by (simp add: sign_options_def Let_def)
  from p all get body d n i show ?thesis by blast
qed

theorem omit_mode_request_witness:
  "call_omit (CancelOrder ''a1'' 529)
   \<and> params (signed_request sample_env sample_client (CancelOrder ''a1'' 529)) =
       Some [(''oauth_consumer_key'', JStr ''ck''), (''oauth_nonce'', JStr ''nonce''),
             (''oauth_signature_method'', JStr ''HMAC-SHA1''), (''oauth_timestamp'', JNum 1),
             (''oauth_version'', JStr ''1.0''), (''oauth_token'', JStr []),
             (''oauth_signature'', JArr [JStr ''PUT'',
                JStr ''https://apisb.etrade.com/v1/accounts/a1/orders/cancel.json'', JUndefined])]
   \<and> data (signed_request sample_env sample_client (CancelOrder ''a1'' 529)) =
       Some (JObj [(''CancelOrderRequest'', JObj [(''orderId'', JNum 529)])])"
  using omit_mode_request [of "CancelOrder ''a1'' 529" sample_env sample_client]
  by (simp add: sample_defs)

text \<open>
  The request of \<^verbatim>\<open>previewOrder\<close> as handed to the transport has a body, and the object
  signed for it has none.
\<close>

theorem omit_mode_body_sent:
  "data (signed_request sample_env sample_client
      (PreviewOrder ''a1'' ''EQ'' (JArr [JObj [(''priceType'', JStr ''LIMIT'')]]) (JNum 7))) =
     Some (JObj [(''PreviewOrderRequest'', JObj [(''orderType'', JStr ''EQ''),
        (''clientOrderId'', JNum 7), (''Order'', JArr [JObj [(''priceType'', JStr ''LIMIT'')]])])])
   \<and> data (sign_options (getBasicRequest sample_env sample_client (call_options
      (PreviewOrder ''a1'' ''EQ'' (JArr [JObj [(''priceType'', JStr ''LIMIT'')]]) (JNum 7)))) True) = None"
  by (simp add: sample_defs)

section \<open>Errors\<close>

lemma request_resolved:
  "axios rq = Resolved r \<Longrightarrow> request c axios rq = (c\<lparr> call_id := call_id c + 1 \<rparr>, Inr (resp_data r))"
  by (simp add: request_def Let_def)

lemma request_rejected:
  "axios rq = Rejected err \<Longrightarrow>
   request c axios rq = (c\<lparr> call_id := call_id c + 1 \<rparr>,
      Inl (case response err of None \<Rightarrow> ThrowAxiosError err | Some r \<Rightarrow> normalize r))"
  by (simp add: request_def Let_def)

lemma normalize_eq:
  assumes "\<not> js_nullish (resp_data r)"
  shows "(normalize r :: 'e thrown) = ThrowETradeError
     \<lparr> message = (if js_truthy (js_prop (resp_data r) ''Error'')
                   then js_prop (js_prop (resp_data r) ''Error'') ''message''
                   else JStr (statusText r)),
       code = (if js_truthy (js_prop (resp_data r) ''Error'')
                  \<and> js_truthy (js_prop (js_prop (resp_data r) ''Error'') ''code'')
               then js_prop (js_prop (resp_data r) ''Error'') ''code''
               else JNum (status r)),
       raw = resp_data r \<rparr>"
  using assms by (simp add: normalize_def js_get_def Let_def)

text \<open>
  C4. When the transport fails without an HTTP response, the call throws the transport's
  error object itself: nothing is added to it and nothing replaces it.
\<close>

theorem transport_error_unmodified:
  assumes "axios rq = Rejected err" and "response err = None"
  shows "snd (request c axios rq) = Inl (ThrowAxiosError err)"
  using assms by (simp add: request_rejected)

theorem transport_error_unmodified_witness:
  "refused_axios (signed_request sample_env sample_client ListAccounts)
      = Rejected \<lparr> response = None, detail = ''ECONNREFUSED'' \<rparr>
   \<and> response \<lparr> response = None, detail = ''ECONNREFUSED'' \<rparr> = None
   \<and> snd (request sample_client refused_axios (signed_request sample_env sample_client ListAccounts))
      = Inl (ThrowAxiosError \<lparr> response = None, detail = ''ECONNREFUSED'' \<rparr>)"
  using transport_error_unmodified [of refused_axios "signed_request sample_env sample_client ListAccounts"
      "\<lparr> response = None, detail = ''ECONNREFUSED'' \<rparr>" sample_client]
  by (simp add: refused_axios_def)

text \<open>
  C2, as the code has it. When the transport fails with an HTTP response whose body is
  neither \<^verbatim>\<open>null\<close> nor \<^verbatim>\<open>undefined\<close>, the call throws the dispatcher's error: its raw field
  is the response body; without a truthy \<^verbatim>\<open>Error\<close> in the body its message is the status
  text and its code the HTTP status; with one, its message is \<^verbatim>\<open>Error.message\<close> and its
  code is \<^verbatim>\<open>Error.code\<close> when that is truthy, the HTTP status otherwise.
\<close>

theorem api_error_normalized:
  assumes "axios rq = Rejected err" and "response err = Some r" and "\<not> js_nullish (resp_data r)"
  shows "snd (request c axios rq) = Inl (ThrowETradeError
     \<lparr> message = (if js_truthy (js_prop (resp_data r) ''Error'')
                   then js_prop (js_prop (resp_data r) ''Error'') ''message''
                   else JStr (statusText r)),
       code = (if js_truthy (js_prop (resp_data r) ''Error'')
                  \<and> js_truthy (js_prop (js_prop (resp_data r) ''Error'') ''code'')
               then js_prop (js_prop (resp_data r) ''Error'') ''code''
               else JNum (status r)),
       raw = resp_data r \<rparr>)"
  using assms by (simp add: request_rejected normalize_eq)

text \<open>The two examples of the specification: status 400 with an \<^verbatim>\<open>Error\<close>, status 500 without.\<close>

theorem api_error_normalized_witness:
  "snd (request sample_client (failing_axios invalid_symbol) empty_request) = Inl (ThrowETradeError
     \<lparr> message = JStr ''Invalid symbol'', code = JNum 1032, raw = resp_data invalid_symbol \<rparr>)
   \<and> snd (request sample_client (failing_axios server_error) empty_request) = Inl (ThrowETradeError
     \<lparr> message = JStr ''Internal Server Error'', code = JNum 500, raw = JObj [] \<rparr>)"
  using api_error_normalized [of "failing_axios invalid_symbol" empty_request
      "\<lparr> response = Some invalid_symbol, detail = () \<rparr>" invalid_symbol sample_client]
    api_error_normalized [of "failing_axios server_error" empty_request
      "\<lparr> response = Some server_error, detail = () \<rparr>" server_error sample_client]
  by (simp add: failing_axios_def invalid_symbol_def server_error_def)

text \<open>
  An \<^verbatim>\<open>Error.code\<close> of 0 is present and does not become the code; a \<^verbatim>\<open>null\<close> body makes
  the handler itself throw a TypeError.
\<close>

theorem api_error_code_zero:
  "snd (request sample_client (failing_axios zero_code) empty_request) = Inl (ThrowETradeError
     \<lparr> message = JStr ''Rejected'', code = JNum 400, raw = resp_data zero_code \<rparr>)
   \<and> snd (request sample_client (failing_axios null_body) empty_request) = Inl ThrowTypeError"
  by (simp add: request_def failing_axios_def zero_code_def null_body_def normalize_def js_get_def Let_def)

section \<open>Unwrapping responses\<close>

lemma invoke_resolved:
  "axios (signed_request e c call) = Resolved r \<Longrightarrow>
   snd (invoke e c axios call) =
     (case call_unwrap call (resp_data r) of None \<Rightarrow> Inl ThrowTypeError | Some x \<Rightarrow> Inr x)"
  by (simp add: invoke_def request_resolved)

text \<open>
  C9. Whatever body the server answers with, \<^verbatim>\<open>viewPortfolio\<close> returns a value; when the
  body, its \<^verbatim>\<open>PortfolioResponse\<close> or the \<^verbatim>\<open>AccountPortfolio\<close> of that is \<^verbatim>\<open>null\<close> or
  \<^verbatim>\<open>undefined\<close>, the value is the empty object. \<^verbatim>\<open>listAccounts\<close> throws a TypeError when the
  body, its \<^verbatim>\<open>AccountListResponse\<close> or the \<^verbatim>\<open>Accounts\<close> of that is \<^verbatim>\<open>null\<close> or \<^verbatim>\<open>undefined\<close>.
\<close>

theorem viewPortfolio_unwrap:
  assumes "axios (signed_request e c (ViewPortfolio a cnt sb so ms tr lr vw)) = Resolved r"
    and "axios (signed_request e c ListAccounts) = Resolved r'"
  shows "(\<exists>x. snd (invoke e c axios (ViewPortfolio a cnt sb so ms tr lr vw)) = Inr x)
    \<and> (js_nullish (resp_data r)
         \<or> js_nullish (js_prop (resp_data r) ''PortfolioResponse'')
         \<or> js_nullish (js_prop (js_prop (resp_data r) ''PortfolioResponse'') ''AccountPortfolio'')
       \<longrightarrow> snd (invoke e c axios (ViewPortfolio a cnt sb so ms tr lr vw)) = Inr (JObj []))
    \<and> (js_nullish (resp_data r')
         \<or> js_nullish (js_prop (resp_data r') ''AccountListResponse'')
         \<or> js_nullish (js_prop (js_prop (resp_data r') ''AccountListResponse'') ''Accounts'')
       \<longrightarrow> snd (invoke e c axios ListAccounts) = Inl ThrowTypeError)"
proof -
  have nt: "js_nullish v \<Longrightarrow> \<not> js_truthy v" for v
    by (cases v) simp_all
  have np: "js_nullish v \<Longrightarrow> js_prop v k = JUndefined" for v k
    by (cases v) simp_all
  have 1: "\<exists>x. snd (invoke e c axios (ViewPortfolio a cnt sb so ms tr lr vw)) = Inr x"
    using assms(1) by (simp add: invoke_resolved Let_def)
  have 2: "snd (invoke e c axios (ViewPortfolio a cnt sb so ms tr lr vw)) = Inr (JObj [])"
    if "js_nullish (resp_data r)
         \<or> js_nullish (js_prop (resp_data r) ''PortfolioResponse'')
         \<or> js_nullish (js_prop (js_prop (resp_data r) ''PortfolioResponse'') ''AccountPortfolio'')"
    using that assms(1) by (auto simp: invoke_resolved Let_def js_get_opt_def nt np)
  have 3: "snd (invoke e c axios ListAccounts) = Inl ThrowTypeError"
    if "js_nullish (resp_data r')
         \<or> js_nullish (js_prop (resp_data r') ''AccountListResponse'')
         \<or> js_nullish (js_prop (js_prop (resp_data r') ''AccountListResponse'') ''Accounts'')"
    using that assms(2) by (auto simp: invoke_resolved get2_def js_get_def)
  from 1 2 3 show ?thesis by blast
qed

theorem viewPortfolio_unwrap_witness:
  "snd (invoke sample_env sample_client (body_axios (JObj [(''PortfolioResponse'', JNull)]))
      (ViewPortfolio ''a1'' None None None None None None None)) = Inr (JObj [])
   \<and> snd (invoke sample_env sample_client (body_axios (JObj [(''AccountListResponse'', JObj [])]))
      ListAccounts) = Inl ThrowTypeError"
  using viewPortfolio_unwrap [of "body_axios (JObj [(''PortfolioResponse'', JNull)])" sample_env sample_client
      "''a1''" None None None None None None None
      "\<lparr> status = 200, statusText = ''OK'', resp_data = JObj [(''PortfolioResponse'', JNull)] \<rparr>"
      "\<lparr> status = 200, statusText = ''OK'', resp_data = JObj [(''PortfolioResponse'', JNull)] \<rparr>"]
    viewPortfolio_unwrap [of "body_axios (JObj [(''AccountListResponse'', JObj [])])" sample_env sample_client
      "''a1''" None None None None None None None
      "\<lparr> status = 200, statusText = ''OK'', resp_data = JObj [(''AccountListResponse'', JObj [])] \<rparr>"
      "\<lparr> status = 200, statusText = ''OK'', resp_data = JObj [(''AccountListResponse'', JObj [])] \<rparr>"]
  by (simp add: body_axios_def)

section \<open>Quotes\<close>

lemma obj_get_copy_all: "obj_get (copy_keys a (obj_keys a) []) k = obj_get a k"
  by (simp add: obj_get_copy_keys obj_keys_def obj_get_absent del: set_map)

lemma params_signRequest_plain:
  "params rq = None \<Longrightarrow>
   \<exists>ps. params (signRequest c rq tok False) = Some ps
      \<and> (\<forall>k. obj_get ps k = obj_get (oauth c (sign_options rq False) (sign_token c tok)) k)"
  by (simp add: signRequest_eq obj_get_copy_all)

text \<open>
  C7, as the code has it. \<^verbatim>\<open>getQuotes\<close> hands the transport a GET request under the base
  URL of the mode, whose path is \<^verbatim>\<open>market/quote/\<close>, the symbols joined by commas (a single
  string as it is) and \<^verbatim>\<open>.json\<close>; its parameters hold every entry of the authorization
  object computed with the client's access token; and it carries a data object with the
  three flags (and \<^verbatim>\<open>detailFlag\<close> when given), so the request has a body.
\<close>

theorem getQuotes_request:
  "rq_method (signed_request e c (GetQuotes symbols df re os sm)) = Some ''GET''
   \<and> baseURL (signed_request e c (GetQuotes symbols df re os sm)) =
       Some (if mode (settings c) = Prod then prod_url (urls (settings c)) else dev_url (urls (settings c)))
   \<and> url (signed_request e c (GetQuotes symbols df re os sm)) =
       Some (''market/quote/'' @ (case symbols of Symbol s \<Rightarrow> s | Symbols ss \<Rightarrow> join '','' ss) @ ''.json'')
   \<and> (\<exists>ps. params (signed_request e c (GetQuotes symbols df re os sm)) = Some ps
        \<and> (\<forall>k. obj_get ps k =
              obj_get (oauth c (sign_options (getBasicRequest e c (call_options (GetQuotes symbols df re os sm))) False)
                         (Some \<lparr> token_key = accessToken (settings c), token_secret = accessSecret (settings c) \<rparr>)) k))
   \<and> data (signed_request e c (GetQuotes symbols df re os sm)) =
       Some (JObj (set_str ''detailFlag'' df
         [(''requireEarningsDate'', JBool (override False re)),
          (''overrideSymbolCount'', JBool (override False os)),
          (''skipMiniOptionsCheck'', JBool (override False sm))]))"
proof -
  let ?rq = "getBasicRequest e c (call_options (GetQuotes symbols df re os sm))"
  have "params ?rq = None"
    by (simp add: getBasicRequest_def empty_request_def)
  from params_signRequest_plain [OF this, of c TokUndefined]
  have "\<exists>ps. params (signed_request e c (GetQuotes symbols df re os sm)) = Some ps
        \<and> (\<forall>k. obj_get ps k =
              obj_get (oauth c (sign_options ?rq False)
                         (Some \<lparr> token_key = accessToken (settings c), token_secret = accessSecret (settings c) \<rparr>)) k)"
    by (simp add: signed_request_def)
  then show ?thesis
    by (simp add: baseURL_signed_request)
       (simp add: signed_request_def signRequest_eq getBasicRequest_def empty_request_def)
qed

theorem getQuotes_request_witness:
  "url (signed_request sample_env (constructor sample_env (Some (no_options\<lparr> opt_mode := Some Dev \<rparr>)))
      (GetQuotes (Symbols [''TSLA'', ''GOOG'']) None None None None)) = Some ''market/quote/TSLA,GOOG.json''
   \<and> baseURL (signed_request sample_env (constructor sample_env (Some (no_options\<lparr> opt_mode := Some Dev \<rparr>)))
      (GetQuotes (Symbols [''TSLA'', ''GOOG'']) None None None None)) = Some ''https://apisb.etrade.com/v1/''
   \<and> url (signed_request sample_env (constructor sample_env (Some (no_options\<lparr> opt_mode := Some Dev \<rparr>)))
      (GetQuotes (Symbol ''TSLA'') None None None None)) = Some ''market/quote/TSLA.json''"
  using getQuotes_request [of sample_env "constructor sample_env (Some (no_options\<lparr> opt_mode := Some Dev \<rparr>))"
      "Symbols [''TSLA'', ''GOOG'']" None None None None]
    getQuotes_request [of sample_env "constructor sample_env (Some (no_options\<lparr> opt_mode := Some Dev \<rparr>))"
      "Symbol ''TSLA''" None None None None]
  by (simp add: constructor_def merge_options_def defaults_def no_options_def merge_urls_def Let_def)

text \<open>The request of the specification's scenario has a body.\<close>

theorem getQuotes_body_sent:
  "data (signed_request sample_env (constructor sample_env (Some (no_options\<lparr> opt_mode := Some Dev \<rparr>)))
      (GetQuotes (Symbols [''TSLA'', ''GOOG'']) None None None None)) =
     Some (JObj [(''requireEarningsDate'', JBool False), (''overrideSymbolCount'', JBool False),
                 (''skipMiniOptionsCheck'', JBool False)])"
  by (simp add: sample_defs set_str_def)

section \<open>Tokens\<close>

text \<open>
  C3, as the code has it. The request of \<^verbatim>\<open>requestToken\<close> is a GET request (the default
  method) without base URL, to the OAuth URL followed by \<^verbatim>\<open>request_token\<close>, with the data
  \<^verbatim>\<open>{ oauth_callback: 'oob' }\<close>; it is signed without a token pair, and every entry of the
  authorization object is in its parameters. When the transport resolves, the result
  holds the string forms of the parsed \<^verbatim>\<open>oauth_token\<close> and \<^verbatim>\<open>oauth_token_secret\<close>, the flag
  that is true exactly when \<^verbatim>\<open>oauth_callback_confirmed\<close> is the string \<^verbatim>\<open>true\<close>, and the
  authorization URL with the consumer key and the token.
\<close>

theorem requestToken_result:
  "rq_method (requestToken_request e c) = Some ''GET''
   \<and> baseURL (requestToken_request e c) = None
   \<and> url (requestToken_request e c) = Some (oauth_url (urls (settings c)) @ ''request_token'')
   \<and> data (requestToken_request e c) = Some (JObj [(''oauth_callback'', JStr ''oob'')])
   \<and> url (sign_options (requestToken_options e c) False) = Some (oauth_url (urls (settings c)) @ ''request_token'')
   \<and> (\<exists>ps. params (requestToken_request e c) = Some ps
        \<and> (\<forall>k. obj_get ps k = obj_get (oauth c (sign_options (requestToken_options e c) False) None) k))
   \<and> (axios (requestToken_request e c) = Resolved r \<longrightarrow>
        snd (requestToken e c axios) = Inr
          \<lparr> rt_oauth_token = js_string (obj_get (parseQueryString e (resp_data r)) ''oauth_token''),
            rt_oauth_token_secret = js_string (obj_get (parseQueryString e (resp_data r)) ''oauth_token_secret''),
            rt_oauth_callback_confirmed =
              (obj_get (parseQueryString e (resp_data r)) ''oauth_callback_confirmed'' = JStr ''true''),
            rt_url = ''https://us.etrade.com/e/t/etws/authorize?key='' @ key (settings c) @ ''&token=''
              @ js_string (obj_get (parseQueryString e (resp_data r)) ''oauth_token'') \<rparr>)"
proof -
  have "params (requestToken_options e c) = None"
    by (simp add: requestToken_options_def getBasicRequest_def empty_request_def Let_def)
  from params_signRequest_plain [OF this, of c "TokBool False"]
  have "\<exists>ps. params (requestToken_request e c) = Some ps
        \<and> (\<forall>k. obj_get ps k = obj_get (oauth c (sign_options (requestToken_options e c) False) None) k)"
    by (simp add: requestToken_request_def)
  then show ?thesis
    by (simp add: requestToken_request_def signRequest_eq requestToken_options_def sign_options_def
        getBasicRequest_def empty_request_def Let_def requestToken_def request_resolved)
qed

theorem requestToken_result_witness:
  "snd (requestToken sample_env sample_client
      (body_axios (JStr ''oauth_token=abc&oauth_token_secret=def&oauth_callback_confirmed=true'')))
    = Inr \<lparr> rt_oauth_token = ''abc'', rt_oauth_token_secret = ''def'', rt_oauth_callback_confirmed = True,
        rt_url = ''https://us.etrade.com/e/t/etws/authorize?key=ck&token=abc'' \<rparr>"
  using requestToken_result [of sample_env sample_client
      "body_axios (JStr ''oauth_token=abc&oauth_token_secret=def&oauth_callback_confirmed=true'')"
      "\<lparr> status = 200, statusText = ''OK'',
          resp_data = JStr ''oauth_token=abc&oauth_token_secret=def&oauth_callback_confirmed=true'' \<rparr>"]
  by (simp add: body_axios_def sample_env_def sample_parse_def sample_client_def constructor_def
      merge_options_def defaults_def no_options_def Let_def)

text \<open>The method of the request is GET, not POST.\<close>

theorem requestToken_method_get:
  "rq_method (requestToken_request sample_env sample_client) = Some ''GET''
   \<and> rq_method (requestToken_request sample_env sample_client) \<noteq> Some ''POST''"
  by (simp add: requestToken_request_def requestToken_options_def sample_defs)

text \<open>
  C10. When the transport resolves, \<^verbatim>\<open>getAccessToken\<close> returns the two fields
  \<^verbatim>\<open>oauth_token\<close> and \<^verbatim>\<open>oauth_token_secret\<close>, each the string form of the field of the
  parsed response; a field the response does not have comes out as the string
  \<^verbatim>\<open>undefined\<close>, and the call does not fail.
\<close>

theorem getAccessToken_result:
  assumes "axios (getAccessToken_request e c key' secret' code') = Resolved r"
  shows "snd (getAccessToken e c axios key' secret' code') = Inr
          \<lparr> at_oauth_token = js_string (obj_get (parseQueryString e (resp_data r)) ''oauth_token''),
            at_oauth_token_secret = js_string (obj_get (parseQueryString e (resp_data r)) ''oauth_token_secret'') \<rparr>
    \<and> (obj_get (parseQueryString e (resp_data r)) ''oauth_token'' = JUndefined \<longrightarrow>
         (\<exists>x. snd (getAccessToken e c axios key' secret' code') = Inr x \<and> at_oauth_token x = ''undefined''))
    \<and> (obj_get (parseQueryString e (resp_data r)) ''oauth_token_secret'' = JUndefined \<longrightarrow>
         (\<exists>x. snd (getAccessToken e c axios key' secret' code') = Inr x \<and> at_oauth_token_secret x = ''undefined''))"
  using assms by (simp add: getAccessToken_def request_resolved Let_def)

theorem getAccessToken_result_witness:
  "snd (getAccessToken sample_env sample_client (body_axios (JStr ''oauth_token_secret=def''))
      ''rk'' ''rs'' ''v1'')
    = Inr \<lparr> at_oauth_token = ''undefined'', at_oauth_token_secret = ''def'' \<rparr>"
  using getAccessToken_result [of "body_axios (JStr ''oauth_token_secret=def'')"
      sample_env sample_client "''rk''" "''rs''" "''v1''"
      "\<lparr> status = 200, statusText = ''OK'', resp_data = JStr ''oauth_token_secret=def'' \<rparr>"]
  by (simp add: body_axios_def sample_env_def sample_parse_def)

end
